theory Spec2Isabelle
  imports Complex_Main "HOL-Library.AList"
begin

section \<open>Python values used by the library\<close>

text \<open>
  Exceptions are values: the class name and the message. A computation that can raise
  returns \<open>exn + 'a\<close>, with \<open>Inl\<close> for the raised exception. The type stands for
  instances of Python's \<open>Exception\<close>, the class that the handlers of this library catch.
\<close>

datatype exn = Exn (exn_class: string) (exn_msg: string)

abbreviation ValueError :: "string \<Rightarrow> exn" where
  "ValueError \<equiv> Exn ''ValueError''"

abbreviation RuntimeError :: "string \<Rightarrow> exn" where
  "RuntimeError \<equiv> Exn ''RuntimeError''"

abbreviation KeyError :: "string \<Rightarrow> exn" where
  "KeyError \<equiv> Exn ''KeyError''"

abbreviation TypeError :: "string \<Rightarrow> exn" where
  "TypeError \<equiv> Exn ''TypeError''"

abbreviation AttributeError :: "string \<Rightarrow> exn" where
  "AttributeError \<equiv> Exn ''AttributeError''"

abbreviation OSError :: "string \<Rightarrow> exn" where
  "OSError \<equiv> Exn ''OSError''"

text \<open>\<open>str(n)\<close> for an integer: decimal digits, a minus sign for a negative number.\<close>

definition digit_char :: "nat \<Rightarrow> char" where
  "digit_char n = ''0123456789'' ! (n mod 10)"

fun str_nat :: "nat \<Rightarrow> string" where
  "str_nat n = (if n < 10 then [digit_char n] else str_nat (n div 10) @ [digit_char (n mod 10)])"

definition str_int :: "int \<Rightarrow> string" where
  "str_int i = (if i < 0 then CHR ''-'' # str_nat (nat (- i)) else str_nat (nat i))"

text \<open>\<open>sep.join(xs)\<close>.\<close>

fun join :: "string \<Rightarrow> string list \<Rightarrow> string" where
  "join sep [] = []"
| "join sep [x] = x"
| "join sep (x # y # ys) = x @ sep @ join sep (y # ys)"

section \<open>libs/db/utils.py\<close>

subsection \<open>sanitize\_identifier\<close>

text \<open>
  The pattern is \<^verbatim>\<open>^[a-zA-Z_][a-zA-Z0-9_]*$\<close>, applied with \<open>re.match\<close>. In Python
  \<^verbatim>\<open>$\<close> matches at the end of the string and also just before a newline that ends
  the string, so an identifier followed by one line feed matches too.
\<close>

definition ident_start :: "char \<Rightarrow> bool" where
  "ident_start c \<longleftrightarrow>
     c \<in> set ''abcdefghijklmnopqrstuvwxyzABCDEFGHIJKLMNOPQRSTUVWXYZ'' \<or> c = CHR ''_''"

definition ident_char :: "char \<Rightarrow> bool" where
  "ident_char c \<longleftrightarrow> ident_start c \<or> c \<in> set ''0123456789''"

fun ident_body :: "string \<Rightarrow> bool" where
  "ident_body [] = False"
| "ident_body (c # cs) = (ident_start c \<and> list_all ident_char cs)"

definition re_match_identifier :: "string \<Rightarrow> bool" where
  "re_match_identifier s \<longleftrightarrow>
     ident_body s \<or> (s \<noteq> [] \<and> last s = CHR 0x0A \<and> ident_body (butlast s))"

definition invalid_identifier_msg :: "string \<Rightarrow> string" where
  "invalid_identifier_msg identifier =
     ''Invalid identifier '' @ [CHR 0x27] @ identifier @ [CHR 0x27] @ ''. '' @
     ''Must start with letter or underscore and contain only letters, numbers, and underscores.''"

definition sanitize_identifier :: "string \<Rightarrow> exn + string" where
  "sanitize_identifier identifier =
     (if \<not> re_match_identifier identifier
      then Inl (ValueError (invalid_identifier_msg identifier))
      else Inr identifier)"

text \<open>
  \<open>[sanitize_identifier(col) for col in cols]\<close>: the comprehension stops at the first
  identifier that raises.
\<close>

fun sanitize_all :: "string list \<Rightarrow> exn + string list" where
  "sanitize_all [] = Inr []"
| "sanitize_all (c # cs) =
     (case sanitize_identifier c of
        Inl e \<Rightarrow> Inl e
      | Inr c' \<Rightarrow> (case sanitize_all cs of Inl e \<Rightarrow> Inl e | Inr cs' \<Rightarrow> Inr (c' # cs')))"

subsection \<open>build\_insert\_query\<close>

text \<open>A dictionary whose order of keys matters is an association list.\<close>

type_synonym 'v pydict = "(string \<times> 'v) list"

definition keys :: "'v pydict \<Rightarrow> string list" where
  "keys d = map fst d"

definition build_insert_query :: "string \<Rightarrow> 'v pydict \<Rightarrow> string \<Rightarrow> exn + string" where
  "build_insert_query table_name data dialect =
     (case sanitize_identifier table_name of
        Inl e \<Rightarrow> Inl e
      | Inr _ \<Rightarrow>
     (case sanitize_all (keys data) of
        Inl e \<Rightarrow> Inl e
      | Inr cols \<Rightarrow>
     (let columns = join '', '' cols in
      case (if dialect = ''clickhouse''
            then Inr (join '', '' (map (\<lambda>col. ''%('' @ col @ '')s'') (keys data)))
            else if dialect \<in> set [''postgres'', ''postgresql'']
            then Inr (join '', '' (map (\<lambda>_. ''%s'') (keys data)))
            else if dialect = ''mysql''
            then Inr (join '', '' (map (\<lambda>_. ''%s'') (keys data)))
            else Inl (ValueError (''Unsupported dialect: '' @ dialect))) of
        Inl e \<Rightarrow> Inl e
      | Inr vals \<Rightarrow>
          Inr (''INSERT INTO '' @ table_name @ '' ('' @ columns @ '') VALUES ('' @ vals @ '')''))))"

subsection \<open>build\_select\_query\<close>

text \<open>
  The loop over the keys of \<open>where\<close> validates each column before it appends the
  condition for it.
\<close>

fun where_conditions :: "string \<Rightarrow> string list \<Rightarrow> exn + string list" where
  "where_conditions dialect [] = Inr []"
| "where_conditions dialect (col # cols) =
     (case sanitize_identifier col of
        Inl e \<Rightarrow> Inl e
      | Inr _ \<Rightarrow>
          (case where_conditions dialect cols of
             Inl e \<Rightarrow> Inl e
           | Inr conds \<Rightarrow>
               Inr ((if dialect = ''clickhouse''
                     then col @ '' = %('' @ col @ '')s''
                     else col @ '' = %s'') # conds)))"

definition build_select_query ::
  "string \<Rightarrow> string list \<Rightarrow> 'v pydict \<Rightarrow> int option \<Rightarrow> string option \<Rightarrow> string \<Rightarrow> exn + string"
where
  "build_select_query table_name columns whr limit order_by dialect =
     (case sanitize_identifier table_name of
        Inl e \<Rightarrow> Inl e
      | Inr _ \<Rightarrow>
     (case (if columns \<noteq> []
            then (case sanitize_all columns of Inl e \<Rightarrow> Inl e | Inr cs \<Rightarrow> Inr (join '', '' cs))
            else Inr ''*'') of
        Inl e \<Rightarrow> Inl e
      | Inr cols \<Rightarrow>
     (let query = ''SELECT '' @ cols @ '' FROM '' @ table_name in
      case (if whr \<noteq> []
            then (case where_conditions dialect (keys whr) of
                    Inl e \<Rightarrow> Inl e
                  | Inr conds \<Rightarrow> Inr (query @ '' WHERE '' @ join '' AND '' conds))
            else Inr query) of
        Inl e \<Rightarrow> Inl e
      | Inr query \<Rightarrow>
     (case (case order_by of
              None \<Rightarrow> Inr query
            | Some ob \<Rightarrow>
                if ob \<noteq> []
                then (case sanitize_identifier ob of
                        Inl e \<Rightarrow> Inl e
                      | Inr _ \<Rightarrow> Inr (query @ '' ORDER BY '' @ ob))
                else Inr query) of
        Inl e \<Rightarrow> Inl e
      | Inr query \<Rightarrow>
          Inr (case limit of
                 None \<Rightarrow> query
               | Some l \<Rightarrow> if l \<noteq> 0 then query @ '' LIMIT '' @ str_int l else query)))))"

subsection \<open>build\_batch\_insert\<close>

text \<open>
  The second component of the result is the list of records itself for ClickHouse, and
  one row of values per record for the other dialects. An empty Python list is both; the
  model returns it as an empty list of rows.
\<close>

datatype 'v params = Records "'v pydict list" | Rows "'v list list"

text \<open>\<open>[record[col] for col in columns]\<close>: a missing key raises \<open>KeyError\<close>.\<close>

fun record_row :: "'v pydict \<Rightarrow> string list \<Rightarrow> exn + 'v list" where
  "record_row record [] = Inr []"
| "record_row record (col # cols) =
     (case map_of record col of
        None \<Rightarrow> Inl (KeyError col)
      | Some v \<Rightarrow> (case record_row record cols of Inl e \<Rightarrow> Inl e | Inr vs \<Rightarrow> Inr (v # vs)))"

fun record_rows :: "'v pydict list \<Rightarrow> string list \<Rightarrow> exn + 'v list list" where
  "record_rows [] columns = Inr []"
| "record_rows (record # records) columns =
     (case record_row record columns of
        Inl e \<Rightarrow> Inl e
      | Inr row \<Rightarrow>
          (case record_rows records columns of Inl e \<Rightarrow> Inl e | Inr rows \<Rightarrow> Inr (row # rows)))"

definition build_batch_insert ::
  "string \<Rightarrow> 'v pydict list \<Rightarrow> string \<Rightarrow> exn + (string \<times> 'v params)"
where
  "build_batch_insert table_name records dialect =
     (case records of
        [] \<Rightarrow> Inr ('''', Rows [])
      | first # _ \<Rightarrow>
     (case sanitize_identifier table_name of
        Inl e \<Rightarrow> Inl e
      | Inr _ \<Rightarrow>
     (let columns = keys first in
      case sanitize_all columns of
        Inl e \<Rightarrow> Inl e
      | Inr _ \<Rightarrow>
     (let cols_str = join '', '' columns in
      if dialect = ''clickhouse''
      then Inr (''INSERT INTO '' @ table_name @ '' ('' @ cols_str @ '') VALUES'', Records records)
      else
        (let placeholders = join '', '' (map (\<lambda>_. ''%s'') columns);
             query = ''INSERT INTO '' @ table_name @ '' ('' @ cols_str @ '') VALUES ('' @
                     placeholders @ '')''
         in case record_rows records columns of
              Inl e \<Rightarrow> Inl e
            | Inr ps \<Rightarrow> Inr (query, Rows ps))))))"


section \<open>libs/observability/logging.py\<close>

text \<open>
  \<open>_correlation_context\<close> is a \<open>threading.local()\<close>: every thread has its own
  attribute \<open>correlation_id\<close>, which does not exist until the thread assigns it and
  which may hold \<open>None\<close>.
\<close>

type_synonym thread = nat

type_synonym correlation_store = "thread \<Rightarrow> string option option"

text \<open>
  \<open>uuid.uuid4().hex\<close> is random; the model takes the hexadecimal text of the
  identifier as an argument.
\<close>

definition generate_correlation_id :: "string \<Rightarrow> string" where
  "generate_correlation_id uuid_hex = ''req_'' @ take 12 uuid_hex"

section \<open>libs/observability/metrics.py\<close>

subsection \<open>The metrics sink and the operating system\<close>

text \<open>
  A labelled counter of the sink: its label names and one count per tuple of label
  values. \<open>labels(**kw)\<close> raises \<open>ValueError\<close> unless the keywords are the label names.
\<close>

record counter =
  labelnames :: "string list"
  samples :: "string list \<Rightarrow> nat"

definition new_counter :: "string list \<Rightarrow> counter" where
  "new_counter names = \<lparr>labelnames = names, samples = (\<lambda>_. 0)\<rparr>"

text \<open>\<open>sorted(xs) == sorted(ys)\<close>: the two lists have the same elements, counted.\<close>

fun same_names :: "string list \<Rightarrow> string list \<Rightarrow> bool" where
  "same_names [] ys = (ys = [])"
| "same_names (x # xs) ys = (x \<in> set ys \<and> same_names xs (remove1 x ys))"

definition labels_inc :: "(string \<times> string) list \<Rightarrow> counter \<Rightarrow> exn + counter" where
  "labels_inc kw c =
     (if labelnames c = [] then Inl (ValueError ''No label names were set when constructing'')
      else if \<not> same_names (map fst kw) (labelnames c) then Inl (ValueError ''Incorrect label names'')
      else (let vals = map (\<lambda>l. the (map_of kw l)) (labelnames c)
            in Inr (c\<lparr>samples := (samples c)(vals := samples c vals + 1)\<rparr>)))"

text \<open>
  What \<open>start_http_server\<close> returns. Whether the handle has a \<open>shutdown\<close> attribute
  is a property of the installed sink, which \<open>shutdown_metrics_servers\<close> tests.
\<close>

record server =
  srv_port :: int
  srv_has_shutdown :: bool

type_synonym ref = nat

record MetricsRegistry =
  service_name :: string
  collector :: "string list"
  port :: "int option"
  server :: "server option"
  port_mapping :: "(string \<times> int) list"
  common_labels :: "(string \<times> string) list"
  service_info :: "(string \<times> string) list"
  service_start_time :: rat
  errors_total :: "string \<times> string \<Rightarrow> nat"
  health_status :: int
  attrs :: "string \<rightharpoonup> counter"

text \<open>
  The state of the process and of its environment. Registries are objects: \<open>heap\<close>
  holds them by reference, \<open>next_ref\<close> is the next unused reference, and the module's
  dictionaries hold references. \<open>occupied\<close> are the ports on which \<open>bind\<close> fails,
  \<open>serving\<close> the ports on which an exposition server of this process is running.
\<close>

record world =
  correlation_context :: correlation_store
  service_registries :: "string \<rightharpoonup> ref"
  metrics_servers :: "(string \<times> server option) list"
  heap :: "ref \<Rightarrow> MetricsRegistry"
  next_ref :: ref
  METRICS_PORT :: "string option"
  occupied :: "int set"
  serving :: "int set"
  handles_have_shutdown :: bool
  now :: rat

definition get_correlation_id :: "thread \<Rightarrow> world \<Rightarrow> string option" where
  "get_correlation_id t w = (case correlation_context w t of None \<Rightarrow> None | Some v \<Rightarrow> v)"

definition set_correlation_id :: "thread \<Rightarrow> string option \<Rightarrow> world \<Rightarrow> world" where
  "set_correlation_id t correlation_id w =
     w\<lparr>correlation_context := (correlation_context w)(t := Some correlation_id)\<rparr>"

subsection \<open>Builtins used by the registry\<close>

text \<open>
  \<open>int(s)\<close> for a string: surrounding whitespace is dropped, then an optional sign and
  decimal digits, with single underscores allowed between digits. \<open>None\<close> stands for
  the \<open>ValueError\<close>. Strings are byte strings here, so only ASCII digits and whitespace
  are recognised.
\<close>

definition py_space :: "char \<Rightarrow> bool" where
  "py_space c \<longleftrightarrow> c \<in> set [CHR '' '', CHR 0x09, CHR 0x0A, CHR 0x0B, CHR 0x0C, CHR 0x0D]"

definition py_strip :: "string \<Rightarrow> string" where
  "py_strip s = rev (dropWhile py_space (rev (dropWhile py_space s)))"

definition is_digit :: "char \<Rightarrow> bool" where
  "is_digit c \<longleftrightarrow> c \<in> set ''0123456789''"

definition digit_value :: "char \<Rightarrow> nat" where
  "digit_value c = length (takeWhile (\<lambda>d. d \<noteq> c) ''0123456789'')"

fun parse_digits :: "string \<Rightarrow> nat \<Rightarrow> nat option" where
  "parse_digits [] acc = Some acc"
| "parse_digits (c # cs) acc =
     (if is_digit c then parse_digits cs (10 * acc + digit_value c)
      else if c = CHR ''_'' \<and> cs \<noteq> [] \<and> is_digit (hd cs) then parse_digits cs acc
      else None)"

definition parse_unsigned :: "string \<Rightarrow> nat option" where
  "parse_unsigned s = (case s of [] \<Rightarrow> None | c # _ \<Rightarrow> if is_digit c then parse_digits s 0 else None)"

definition py_int :: "string \<Rightarrow> int option" where
  "py_int s =
     (case py_strip s of
        [] \<Rightarrow> None
      | c # cs \<Rightarrow>
          if c = CHR ''-'' then map_option (\<lambda>n. - int n) (parse_unsigned cs)
          else if c = CHR ''+'' then map_option int (parse_unsigned cs)
          else map_option int (parse_unsigned (c # cs)))"

text \<open>\<open>key in s\<close> for strings: \<open>key\<close> occurs in \<open>s\<close> as a contiguous substring.\<close>

fun starts_with :: "string \<Rightarrow> string \<Rightarrow> bool" where
  "starts_with [] s = True"
| "starts_with (k # ks) [] = False"
| "starts_with (k # ks) (c # cs) = (k = c \<and> starts_with ks cs)"

fun is_substring :: "string \<Rightarrow> string \<Rightarrow> bool" where
  "is_substring key [] = (key = [])"
| "is_substring key (c # cs) = (starts_with key (c # cs) \<or> is_substring key cs)"

subsection \<open>MetricsRegistry\<close>

text \<open>
  \<open>__init__\<close> and \<open>_init_common_metrics\<close>. The four built-in instruments are
  registered with the registry's own collector; the health gauge is set to 1. The sink is
  modelled as far as this library uses it: the collector is the list of registered metric
  names, and it refuses a name that is registered already.
\<close>

definition default_label_extractor :: "string \<Rightarrow> (string \<times> string) list" where
  "default_label_extractor name = [(''service'', name)]"

definition MetricsRegistry_init ::
  "rat \<Rightarrow> string \<Rightarrow> int option \<Rightarrow> (string \<times> int) list option \<Rightarrow>
   (string \<Rightarrow> (string \<times> string) list) option \<Rightarrow> MetricsRegistry"
where
  "MetricsRegistry_init current_time name prt mapping label_extractor =
     (let labels = (case label_extractor of
                      None \<Rightarrow> default_label_extractor name
                    | Some f \<Rightarrow> f name)
      in \<lparr>service_name = name,
          collector = [''service_info'', ''service_start_time_seconds'',
                       ''service_errors_total'', ''service_health_status''],
          port = prt,
          server = None,
          port_mapping = (case mapping of None \<Rightarrow> [] | Some m \<Rightarrow> m),
          common_labels = labels,
          service_info = fold (\<lambda>(k, v). AList.update k v) labels
                           [(''service_name'', name), (''version'', ''1.0.0'')],
          service_start_time = current_time,
          errors_total = (\<lambda>_. 0),
          health_status = 1,
          attrs = Map.empty\<rparr>)"

definition update_registry :: "ref \<Rightarrow> (MetricsRegistry \<Rightarrow> MetricsRegistry) \<Rightarrow> world \<Rightarrow> world" where
  "update_registry r f w = w\<lparr>heap := (heap w)(r := f (heap w r))\<rparr>"

definition create_counter :: "ref \<Rightarrow> string \<Rightarrow> string list \<Rightarrow> world \<Rightarrow> (exn + counter) \<times> world" where
  "create_counter r name names w =
     (if name \<in> set (collector (heap w r))
      then (Inl (ValueError (''Duplicated timeseries in CollectorRegistry: '' @ name)), w)
      else (Inr (new_counter names),
            update_registry r (\<lambda>reg. reg\<lparr>collector := collector reg @ [name]\<rparr>) w))"

definition is_port_available :: "world \<Rightarrow> int \<Rightarrow> bool" where
  "is_port_available w p \<longleftrightarrow> p \<notin> occupied w"

definition find_available_port :: "world \<Rightarrow> int \<Rightarrow> exn + int" where
  "find_available_port w start_port =
     (case find (is_port_available w) [start_port .. start_port + 99] of
        Some p \<Rightarrow> Inr p
      | None \<Rightarrow> Inl (RuntimeError (''No available ports found starting from '' @ str_int start_port)))"

definition get_default_port :: "MetricsRegistry \<Rightarrow> world \<Rightarrow> exn + int" where
  "get_default_port reg w =
     (case (case METRICS_PORT w of None \<Rightarrow> None | Some s \<Rightarrow> if s \<noteq> [] then Some s else None) of
        Some env_port \<Rightarrow>
          (case py_int env_port of
             None \<Rightarrow> Inl (ValueError (''invalid literal for int() with base 10: '' @ env_port))
           | Some n \<Rightarrow> Inr n)
      | None \<Rightarrow>
          (case find (\<lambda>(key, p). is_substring key (service_name reg)) (port_mapping reg) of
             Some (key, p) \<Rightarrow> Inr p
           | None \<Rightarrow> Inr 9090))"

text \<open>
  \<open>port or self.port or self._get_default_port()\<close>: \<open>None\<close> and 0 are false, and the
  default is computed only when it is needed.
\<close>

definition truthy_port :: "int option \<Rightarrow> int option" where
  "truthy_port p = (case p of None \<Rightarrow> None | Some n \<Rightarrow> if n \<noteq> 0 then Some n else None)"

definition target_port :: "MetricsRegistry \<Rightarrow> int option \<Rightarrow> world \<Rightarrow> exn + int" where
  "target_port reg prt w =
     (case truthy_port prt of
        Some p \<Rightarrow> Inr p
      | None \<Rightarrow> (case truthy_port (port reg) of Some p \<Rightarrow> Inr p | None \<Rightarrow> get_default_port reg w))"

text \<open>
  \<open>start_http_server\<close> of the sink binds the port and starts serving; binding an
  occupied port raises \<open>OSError\<close>.
\<close>

definition start_http_server :: "int \<Rightarrow> world \<Rightarrow> (exn + server) \<times> world" where
  "start_http_server p w =
     (if p \<in> occupied w then (Inl (OSError ''Address already in use''), w)
      else (Inr \<lparr>srv_port = p, srv_has_shutdown = handles_have_shutdown w\<rparr>,
            w\<lparr>occupied := insert p (occupied w), serving := insert p (serving w)\<rparr>))"

definition start_metrics_server :: "ref \<Rightarrow> int option \<Rightarrow> world \<Rightarrow> (exn + bool) \<times> world" where
  "start_metrics_server r prt w =
     (if server (heap w r) \<noteq> None then (Inr True, w)
      else
        (case target_port (heap w r) prt w of
           Inl e \<Rightarrow> (Inl e, w)
         | Inr target \<Rightarrow>
        (case (if \<not> is_port_available w target then find_available_port w target else Inr target) of
           Inl e \<Rightarrow> (Inl e, w)
         | Inr target \<Rightarrow>
        (case start_http_server target w of
           (Inl e, w') \<Rightarrow> (Inl e, w')
         | (Inr srv, w') \<Rightarrow>
             (Inr True,
              update_registry r (\<lambda>reg. reg\<lparr>server := Some srv, port := Some target\<rparr>) w')))))"

text \<open>
  \<open>errors_total\<close> is the counter labelled by \<open>error_type\<close> and \<open>component\<close>;
  \<open>record_error\<close> increments the sample of the pair it is given.
\<close>

definition record_error :: "ref \<Rightarrow> string \<Rightarrow> string \<Rightarrow> world \<Rightarrow> world" where
  "record_error r error_type component w =
     update_registry r
       (\<lambda>reg. reg\<lparr>errors_total :=
                 (errors_total reg)((error_type, component) := errors_total reg (error_type, component) + 1)\<rparr>) w"

definition set_health_status :: "ref \<Rightarrow> bool \<Rightarrow> world \<Rightarrow> world" where
  "set_health_status r healthy w =
     update_registry r (\<lambda>reg. reg\<lparr>health_status := (if healthy then 1 else 0)\<rparr>) w"

subsection \<open>The registry cache\<close>

text \<open>
  The body of \<open>setup_metrics\<close> runs under \<open>_metrics_lock\<close>, so it is one atomic step
  on the world. The lock is released when the body raises.
\<close>

definition setup_metrics ::
  "string \<Rightarrow> int option \<Rightarrow> (string \<times> int) list option \<Rightarrow> bool \<Rightarrow> world \<Rightarrow> (exn + ref) \<times> world"
where
  "setup_metrics name prt mapping start_server w =
     (case service_registries w name of
        Some r \<Rightarrow> (Inr r, w)
      | None \<Rightarrow>
          (let r = next_ref w;
               w1 = w\<lparr>heap := (heap w)(r := MetricsRegistry_init (now w) name prt mapping None),
                      next_ref := Suc r,
                      service_registries := (service_registries w)(name \<mapsto> r)\<rparr>
           in if start_server
              then (case start_metrics_server r None w1 of
                      (Inl e, w2) \<Rightarrow> (Inl e, w2)
                    | (Inr success, w2) \<Rightarrow>
                        (Inr r,
                         if success
                         then w2\<lparr>metrics_servers :=
                                   AList.update name (server (heap w2 r)) (metrics_servers w2)\<rparr>
                         else w2))
              else (Inr r, w1)))"

definition get_metrics_registry :: "string \<Rightarrow> world \<Rightarrow> ref option" where
  "get_metrics_registry name w = service_registries w name"

text \<open>
  \<open>server.shutdown()\<close> stops the exposition server; it is called only for a handle
  that has the attribute. Then \<open>_metrics_servers\<close> is cleared.
\<close>

definition server_shutdown :: "server \<Rightarrow> world \<Rightarrow> world" where
  "server_shutdown srv w = w\<lparr>serving := serving w - {srv_port srv}\<rparr>"

definition shutdown_one :: "string \<times> server option \<Rightarrow> world \<Rightarrow> world" where
  "shutdown_one entry w =
     (case snd entry of
        None \<Rightarrow> w
      | Some srv \<Rightarrow> if srv_has_shutdown srv then server_shutdown srv w else w)"

definition shutdown_metrics_servers :: "world \<Rightarrow> world" where
  "shutdown_metrics_servers w = (fold shutdown_one (metrics_servers w) w)\<lparr>metrics_servers := []\<rparr>"


section \<open>libs/observability/decorators.py\<close>

text \<open>
  The arguments of a wrapped call, as far as the wrapper looks at them: a string, some
  other hashable value, or an unhashable value (on which the dictionary lookup of
  \<open>get_metrics_registry\<close> raises \<open>TypeError\<close>).
\<close>

datatype pyval = PyStr string | PyHashable | PyUnhashable

text \<open>
  \<open>hasattr\<close> and \<open>getattr\<close> on a registry. Attributes added with \<open>setattr\<close> are in
  \<open>attrs\<close>; the others are the ones that the class and its constructor define
  (attributes inherited from \<open>object\<close> are not listed). The built-in instruments have
  no label \<open>component\<close> alone, so \<open>labels(component=...)\<close> raises \<open>ValueError\<close> on
  them; the remaining attributes have no \<open>labels\<close> at all.
\<close>

datatype attr_value = ACounter counter | ABuiltin | AOther

definition builtin_instruments :: "string list" where
  "builtin_instruments = [''service_info'', ''service_start_time'', ''errors_total'', ''health_status'']"

definition other_attributes :: "string list" where
  "other_attributes =
     [''service_name'', ''registry'', ''port'', ''server'', ''_port_mapping'',
      ''_label_extractor'', ''_common_labels'', ''_default_label_extractor'',
      ''_init_common_metrics'', ''create_counter'', ''create_histogram'', ''create_gauge'',
      ''start_metrics_server'', ''_get_default_port'', ''_is_port_available'',
      ''_find_available_port'', ''get_metrics_text'', ''record_error'', ''set_health_status'']"

definition getattr :: "MetricsRegistry \<Rightarrow> string \<Rightarrow> attr_value option" where
  "getattr reg name =
     (case attrs reg name of
        Some c \<Rightarrow> Some (ACounter c)
      | None \<Rightarrow>
          if name \<in> set builtin_instruments then Some ABuiltin
          else if name \<in> set other_attributes then Some AOther
          else None)"

definition hasattr :: "MetricsRegistry \<Rightarrow> string \<Rightarrow> bool" where
  "hasattr reg name \<longleftrightarrow> getattr reg name \<noteq> None"

definition setattr :: "ref \<Rightarrow> string \<Rightarrow> counter \<Rightarrow> world \<Rightarrow> world" where
  "setattr r name c w = update_registry r (\<lambda>reg. reg\<lparr>attrs := (attrs reg)(name \<mapsto> c)\<rparr>) w"

text \<open>\<open>getattr(metrics_registry, name).labels(component="main").inc()\<close>.\<close>

definition inc_main :: "ref \<Rightarrow> string \<Rightarrow> world \<Rightarrow> (exn + unit) \<times> world" where
  "inc_main r name w =
     (case getattr (heap w r) name of
        None \<Rightarrow> (Inl (AttributeError name), w)
      | Some AOther \<Rightarrow> (Inl (AttributeError ''labels''), w)
      | Some ABuiltin \<Rightarrow> (Inl (ValueError ''Incorrect label names''), w)
      | Some (ACounter c) \<Rightarrow>
          (case labels_inc [(''component'', ''main'')] c of
             Inl e \<Rightarrow> (Inl e, w)
           | Inr c' \<Rightarrow> (Inr (), setattr r name c' w)))"

text \<open>The instrumentation after a normal return of the wrapped function.\<close>

definition record_success :: "string \<Rightarrow> ref \<Rightarrow> world \<Rightarrow> (exn + unit) \<times> world" where
  "record_success success_metric_name r w =
     (case (if \<not> hasattr (heap w r) success_metric_name
            then (case create_counter r success_metric_name [''component''] w of
                    (Inl e, w') \<Rightarrow> (Inl e, w')
                  | (Inr c, w') \<Rightarrow> (Inr (), setattr r success_metric_name c w'))
            else (Inr (), w)) of
        (Inl e, w') \<Rightarrow> (Inl e, w')
      | (Inr _, w') \<Rightarrow>
          (case inc_main r success_metric_name w' of
             (Inl e, w'') \<Rightarrow> (Inl e, w'')
           | (Inr _, w'') \<Rightarrow> (Inr (), set_health_status r True w'')))"

text \<open>The handler \<open>except Exception\<close>: it records, and raises the exception again.\<close>

definition on_exception :: "string \<Rightarrow> ref option \<Rightarrow> exn \<Rightarrow> world \<Rightarrow> (exn + 'r) \<times> world" where
  "on_exception failure_metric_name metrics_registry e w =
     (case metrics_registry of
        None \<Rightarrow> (Inl e, w)
      | Some r \<Rightarrow> (Inl e, set_health_status r False (record_error r failure_metric_name ''main'' w)))"

definition resolve_registry :: "pyval list \<Rightarrow> (string \<times> pyval) list \<Rightarrow> world \<Rightarrow> exn + ref option" where
  "resolve_registry args kwargs w =
     (case args of
        PyStr s # _ \<Rightarrow> Inr (get_metrics_registry s w)
      | _ \<Rightarrow>
          (case map_of kwargs ''service_name'' of
             None \<Rightarrow> Inr None
           | Some (PyStr s) \<Rightarrow> Inr (get_metrics_registry s w)
           | Some PyHashable \<Rightarrow> Inr None
           | Some PyUnhashable \<Rightarrow> Inl (TypeError ''unhashable type'')))"

text \<open>
  A wrapped function is a computation on the world that returns a value or raises. When
  no registry is resolved the wrapper calls it through \<open>capture_locals\<close>, whose
  \<open>locals()\<close> never has the key \<open>metrics_registry\<close>, so the registry stays \<open>None\<close>.
\<close>

type_synonym 'r pyfun = "pyval list \<Rightarrow> (string \<times> pyval) list \<Rightarrow> world \<Rightarrow> (exn + 'r) \<times> world"

definition wrapper_try ::
  "string \<Rightarrow> string \<Rightarrow> 'r pyfun \<Rightarrow> pyval list \<Rightarrow> (string \<times> pyval) list \<Rightarrow> world \<Rightarrow> (exn + 'r) \<times> world"
where
  "wrapper_try success_metric_name failure_metric_name func args kwargs w =
     (case resolve_registry args kwargs w of
        Inl e \<Rightarrow> on_exception failure_metric_name None e w
      | Inr metrics_registry \<Rightarrow>
          (case func args kwargs w of
             (Inl e, w') \<Rightarrow> on_exception failure_metric_name metrics_registry e w'
           | (Inr result, w') \<Rightarrow>
               (case metrics_registry of
                  None \<Rightarrow> (Inr result, w')
                | Some r \<Rightarrow>
                    (case record_success success_metric_name r w' of
                       (Inl e, w'') \<Rightarrow> on_exception failure_metric_name metrics_registry e w''
                     | (Inr _, w'') \<Rightarrow> (Inr result, w'')))))"

text \<open>\<open>get_correlation_id() or generate_correlation_id()\<close>: \<open>None\<close> and the empty string are false.\<close>

definition entry_correlation_id :: "thread \<Rightarrow> string \<Rightarrow> world \<Rightarrow> string" where
  "entry_correlation_id t uuid_hex w =
     (case get_correlation_id t w of
        None \<Rightarrow> generate_correlation_id uuid_hex
      | Some c \<Rightarrow> if c \<noteq> [] then c else generate_correlation_id uuid_hex)"

definition wrapper_enter :: "thread \<Rightarrow> string \<Rightarrow> world \<Rightarrow> world" where
  "wrapper_enter t uuid_hex w = set_correlation_id t (Some (entry_correlation_id t uuid_hex w)) w"

text \<open>
  The wrapper that \<open>manage_metrics(success, failure)(func)\<close> returns, called in thread
  \<open>t\<close>. The \<open>finally\<close> clause runs on every way out of the \<open>try\<close> statement.
\<close>

definition manage_metrics ::
  "string \<Rightarrow> string \<Rightarrow> 'r pyfun \<Rightarrow> thread \<Rightarrow> string \<Rightarrow> pyval list \<Rightarrow> (string \<times> pyval) list \<Rightarrow>
   world \<Rightarrow> (exn + 'r) \<times> world"
where
  "manage_metrics success_metric_name failure_metric_name func t uuid_hex args kwargs w =
     (case wrapper_try success_metric_name failure_metric_name func args kwargs
             (wrapper_enter t uuid_hex w) of
        (outcome, w') \<Rightarrow> (outcome, set_correlation_id t None w'))"

section \<open>libs/observability/shutdown.py\<close>

text \<open>
  \<open>terminate_event\<close> is set by the signal handler and never cleared: it is described
  by the time at which it is set, if ever. Time is exact here: \<open>asyncio.sleep(d)\<close>
  suspends the caller for \<open>d\<close> time units (for no time when \<open>d\<close> is not positive), and
  the other statements take no time. The numbers are rationals, not floating-point
  numbers.
\<close>

definition is_set :: "rat option \<Rightarrow> rat \<Rightarrow> bool" where
  "is_set set_at t = (case set_at of None \<Rightarrow> False | Some s \<Rightarrow> s \<le> t)"

text \<open>
  The result of the wait: the value returned, the time of the return, and the slices
  \<open>(start, argument of asyncio.sleep)\<close> in the order of the calls.
\<close>

record wait_result =
  returned :: bool
  returned_at :: rat
  slices :: "(rat \<times> rat) list"

text \<open>
  The loop, from a given state \<open>(elapsed, clock, slices so far)\<close>. It need not
  terminate, so not returning is the value \<open>None\<close>.
\<close>

partial_function (option) wait_loop ::
  "rat option \<Rightarrow> rat \<Rightarrow> rat \<Rightarrow> rat \<Rightarrow> rat \<Rightarrow> (rat \<times> rat) list \<Rightarrow> wait_result option"
where
  "wait_loop set_at timeout check_interval elapsed clock sl =
     (if elapsed < timeout
      then if is_set set_at clock
           then Some \<lparr>returned = True, returned_at = clock, slices = sl\<rparr>
           else (let d = min check_interval (timeout - elapsed)
                 in wait_loop set_at timeout check_interval (elapsed + check_interval)
                      (clock + max d 0) (sl @ [(clock, d)]))
      else Some \<lparr>returned = is_set set_at clock, returned_at = clock, slices = sl\<rparr>)"

declare wait_loop.simps [code]

definition async_wait_for_termination :: "rat option \<Rightarrow> rat \<Rightarrow> rat \<Rightarrow> rat \<Rightarrow> wait_result option" where
  "async_wait_for_termination set_at start timeout check_interval =
     wait_loop set_at timeout check_interval 0 start []"

section \<open>Programs over the library\<close>

text \<open>
  A client of the library calls its operations one after the other. A wrapped function
  is itself such a client: it runs its calls and then returns or raises.
\<close>

datatype call =
    Setup string "int option" "(string \<times> int) list option" bool
  | StartServer ref "int option"
  | CreateCounter ref string "string list"
  | RecordError ref string string
  | SetHealth ref bool
  | Shutdown
  | SetCorrelation thread "string option"
  | Wrapped string string thread string "pyval list" "(string \<times> pyval) list" "call list" "exn + unit"

definition run_body :: "(world \<Rightarrow> world) list \<Rightarrow> exn + unit \<Rightarrow> unit pyfun" where
  "run_body steps outcome args kwargs w = (outcome, fold (\<lambda>f. f) steps w)"

primrec exec :: "call \<Rightarrow> world \<Rightarrow> world" where
  "exec (Setup name prt mapping start_server) = (\<lambda>w. snd (setup_metrics name prt mapping start_server w))"
| "exec (StartServer r prt) = (\<lambda>w. snd (start_metrics_server r prt w))"
| "exec (CreateCounter r name names) = (\<lambda>w. snd (create_counter r name names w))"
| "exec (RecordError r error_type component) = record_error r error_type component"
| "exec (SetHealth r healthy) = set_health_status r healthy"
| "exec Shutdown = shutdown_metrics_servers"
| "exec (SetCorrelation t v) = set_correlation_id t v"
| "exec (Wrapped success failure t uuid_hex args kwargs body outcome) =
     (\<lambda>w. snd (manage_metrics success failure (run_body (map exec body) outcome) t uuid_hex args kwargs w))"

definition run :: "call list \<Rightarrow> world \<Rightarrow> world" where
  "run calls w = fold exec calls w"

text \<open>The state of the process when the modules have been imported.\<close>

definition initial_world :: "string option \<Rightarrow> int set \<Rightarrow> bool \<Rightarrow> rat \<Rightarrow> world" where
  "initial_world env_port ports has_shutdown current_time =
     \<lparr>correlation_context = (\<lambda>_. None),
      service_registries = Map.empty,
      metrics_servers = [],
      heap = (\<lambda>_. MetricsRegistry_init 0 [] None None None),
      next_ref = 0,
      METRICS_PORT = env_port,
      occupied = ports,
      serving = {},
      handles_have_shutdown = has_shutdown,
      now = current_time\<rparr>"





text \<open>
  The health gauge of every registry that has been constructed reads 0 or 1.
\<close>

definition health_is_binary :: "world \<Rightarrow> bool" where
  "health_is_binary w \<longleftrightarrow>
     (\<forall>r<next_ref w. health_status (heap w r) = 0 \<or> health_status (heap w r) = 1)"

text \<open>
  Worlds used in the examples: no port is taken in the first one, another process
  listens on the ports 9090 and 9091 in the second one, and on the hundred ports from
  9090 on in the third one.
\<close>

definition quiet_world :: world where
  "quiet_world = initial_world None {} True 0"

definition busy_world :: world where
  "busy_world = initial_world None {9090, 9091} True 0"


section \<open>Shared facts about the heap\<close>

lemma heap_update_registry:
  "heap (update_registry r f w) r' = (if r' = r then f (heap w r) else heap w r')"
  by (simp add: update_registry_def)

lemma update_registry_fields:
  "service_registries (update_registry r f w) = service_registries w"
  "metrics_servers (update_registry r f w) = metrics_servers w"
  "next_ref (update_registry r f w) = next_ref w"
  "occupied (update_registry r f w) = occupied w"
  "serving (update_registry r f w) = serving w"
  "correlation_context (update_registry r f w) = correlation_context w"
  "METRICS_PORT (update_registry r f w) = METRICS_PORT w"
  "handles_have_shutdown (update_registry r f w) = handles_have_shutdown w"
  "now (update_registry r f w) = now w"
  by (simp_all add: update_registry_def)

section \<open>Correlation identifiers\<close>

text \<open>
  Claim C5. In every thread, reading the correlation id after setting it to an
  identifier returns that identifier; and after a wrapped call has completed in a thread,
  by a normal return or by an exception, the correlation id of that thread reads as
  absent.
\<close>

theorem correlation_id_round_trip:
  "get_correlation_id t (set_correlation_id t (Some cid) w) = Some cid \<and>
   get_correlation_id t
     (snd (manage_metrics success failure func t uuid_hex args kwargs w)) = None"
  by (simp add: get_correlation_id_def set_correlation_id_def manage_metrics_def
      split: prod.splits)

section \<open>The exposition server\<close>

text \<open>
  Claim C7. \<open>start_metrics_server\<close> is idempotent: on a registry that has a server it
  returns \<open>True\<close> and changes nothing, so no second listener is opened and the port and
  the handle of the registry stay as they are; and a call that follows a successful call
  on the same registry is such a call.
\<close>

theorem start_metrics_server_idempotent:
  "(server (heap w r) \<noteq> None \<longrightarrow> start_metrics_server r prt w = (Inr True, w)) \<and>
   (fst (start_metrics_server r prt w) = Inr True \<longrightarrow>
      start_metrics_server r prt' (snd (start_metrics_server r prt w)) =
        (Inr True, snd (start_metrics_server r prt w)))"
proof (intro conjI impI)
  assume "server (heap w r) \<noteq> None"
  then show "start_metrics_server r prt w = (Inr True, w)"
    by (simp add: start_metrics_server_def)
next
  assume ok: "fst (start_metrics_server r prt w) = Inr True"
  have "server (heap (snd (start_metrics_server r prt w)) r) \<noteq> None"
    using ok
    by (auto simp: start_metrics_server_def heap_update_registry
        split: sum.splits prod.splits if_splits)
  then show "start_metrics_server r prt' (snd (start_metrics_server r prt w)) =
        (Inr True, snd (start_metrics_server r prt w))"
    by (simp add: start_metrics_server_def)
qed

theorem start_metrics_server_idempotent_witness:
  "server (heap (run [Setup ''svc'' None None True] quiet_world) 0) \<noteq> None \<and>
   start_metrics_server 0 (Some 8000) (run [Setup ''svc'' None None True] quiet_world) =
     (Inr True, run [Setup ''svc'' None None True] quiet_world) \<and>
   fst (start_metrics_server 0 None (run [Setup ''svc'' None None False] busy_world)) = Inr True \<and>
   start_metrics_server 0 (Some 8000)
       (snd (start_metrics_server 0 None (run [Setup ''svc'' None None False] busy_world))) =
     (Inr True, snd (start_metrics_server 0 None (run [Setup ''svc'' None None False] busy_world)))"
proof -
  have h1: "server (heap (run [Setup ''svc'' None None True] quiet_world) 0) \<noteq> None"
    by code_simp
  have h2: "fst (start_metrics_server 0 None (run [Setup ''svc'' None None False] busy_world)) = Inr True"
    by code_simp
  from h1 h2
    start_metrics_server_idempotent
      [of "run [Setup ''svc'' None None True] quiet_world" 0 "Some 8000"]
    start_metrics_server_idempotent
      [of "run [Setup ''svc'' None None False] busy_world" 0 None "Some 8000"]
  show ?thesis by blast
qed

section \<open>Query builders\<close>

lemma ident_char_cases:
  "\<not> ident_char (CHR '';'')" "\<not> ident_char (CHR '' '')" "\<not> ident_char (CHR 0x0A)"
  by (simp_all add: ident_char_def ident_start_def)

lemma digit_not_ident_start: "is_digit c \<Longrightarrow> \<not> ident_start c"
  unfolding is_digit_def ident_start_def
  by (elim disjE | simp)+

lemma ident_start_char: "ident_start c \<Longrightarrow> ident_char c"
  by (simp add: ident_char_def)

lemma ident_body_chars: "ident_body s \<Longrightarrow> c \<in> set s \<Longrightarrow> ident_char c"
  by (cases s) (auto simp: list_all_iff ident_start_char)

lemma ident_body_hd: "ident_body s \<Longrightarrow> s \<noteq> [] \<and> ident_start (hd s)"
  by (cases s) auto

lemma re_match_chars:
  assumes "re_match_identifier s" and "c \<in> set s"
  shows "ident_char c \<or> c = CHR 0x0A"
proof (cases "ident_body s")
  case True
  with assms show ?thesis by (simp add: ident_body_chars)
next
  case False
  with assms have ne: "s \<noteq> []" and l: "last s = CHR 0x0A" and b: "ident_body (butlast s)"
    by (auto simp: re_match_identifier_def)
  from assms(2) ne have "c \<in> set (butlast s @ [last s])" by simp
  then have "c \<in> set (butlast s) \<or> c = last s"
    by (simp only: set_append Un_iff list.set insert_iff empty_iff) blast
  with l b show ?thesis using ident_body_chars by blast
qed

lemma re_match_hd:
  assumes "re_match_identifier s"
  shows "s \<noteq> [] \<and> ident_start (hd s)"
proof (cases "ident_body s")
  case True
  then show ?thesis by (rule ident_body_hd)
next
  case False
  with assms have ne: "s \<noteq> []" and b: "ident_body (butlast s)"
    by (auto simp: re_match_identifier_def)
  from b have "butlast s \<noteq> []" and "ident_start (hd (butlast s))"
    using ident_body_hd by blast+
  moreover from this have "hd (butlast s) = hd s"
    by (cases s) auto
  ultimately show ?thesis using ne by simp
qed

lemma bad_identifier:
  assumes "CHR '';'' \<in> set s \<or> CHR '' '' \<in> set s \<or> (s \<noteq> [] \<and> is_digit (hd s))"
  shows "\<not> re_match_identifier s"
proof
  assume m: "re_match_identifier s"
  from assms consider (semicolon) "CHR '';'' \<in> set s" | (space) "CHR '' '' \<in> set s"
    | (digit) "is_digit (hd s)" by blast
  then show False
  proof cases
    case semicolon
    from re_match_chars [OF m semicolon] show False by (simp add: ident_char_cases)
  next
    case space
    from re_match_chars [OF m space] show False by (simp add: ident_char_cases)
  next
    case digit
    with re_match_hd [OF m] show False using digit_not_ident_start by blast
  qed
qed

lemma sanitize_identifier_invalid:
  "\<not> re_match_identifier s \<Longrightarrow> sanitize_identifier s = Inl (ValueError (invalid_identifier_msg s))"
  by (simp add: sanitize_identifier_def)

lemma sanitize_all_errors: "sanitize_all cs = Inl e \<Longrightarrow> \<exists>msg. e = ValueError msg"
  by (induction cs) (auto simp: sanitize_identifier_def split: sum.splits if_splits)

lemma where_conditions_errors: "where_conditions d cs = Inl e \<Longrightarrow> \<exists>msg. e = ValueError msg"
  by (induction cs) (auto simp: sanitize_identifier_def split: sum.splits if_splits)

lemma sanitize_all_valid: "sanitize_all cs = Inr cs' \<Longrightarrow> c \<in> set cs \<Longrightarrow> re_match_identifier c"
  by (induction cs arbitrary: cs') (auto simp: sanitize_identifier_def split: sum.splits if_splits)

lemma where_conditions_valid: "where_conditions d cs = Inr cs' \<Longrightarrow> c \<in> set cs \<Longrightarrow> re_match_identifier c"
  by (induction cs arbitrary: cs') (auto simp: sanitize_identifier_def split: sum.splits if_splits)

lemma sanitize_all_invalid:
  assumes "\<exists>c\<in>set cs. \<not> re_match_identifier c"
  shows "\<exists>msg. sanitize_all cs = Inl (ValueError msg)"
proof (cases "sanitize_all cs")
  case (Inl e)
  then show ?thesis using sanitize_all_errors by blast
next
  case (Inr cs')
  with assms show ?thesis using sanitize_all_valid by blast
qed

lemma where_conditions_invalid:
  assumes "\<exists>c\<in>set cs. \<not> re_match_identifier c"
  shows "\<exists>msg. where_conditions d cs = Inl (ValueError msg)"
proof (cases "where_conditions d cs")
  case (Inl e)
  then show ?thesis using where_conditions_errors by blast
next
  case (Inr cs')
  with assms show ?thesis using where_conditions_valid by blast
qed

lemma insert_invalid:
  assumes "\<not> re_match_identifier table \<or> (\<exists>c\<in>set (keys data). \<not> re_match_identifier c) \<or>
     dialect \<notin> set [''clickhouse'', ''postgres'', ''postgresql'', ''mysql'']"
  shows "\<exists>msg. build_insert_query table data dialect = Inl (ValueError msg)"
proof (cases "re_match_identifier table")
  case False
  then show ?thesis by (simp add: build_insert_query_def sanitize_identifier_def)
next
  case t: True
  show ?thesis
  proof (cases "sanitize_all (keys data)")
    case (Inl e)
    with t sanitize_all_errors [OF Inl] show ?thesis
      by (auto simp: build_insert_query_def sanitize_identifier_def)
  next
    case (Inr cs)
    with sanitize_all_invalid [of "keys data"] have "\<not> (\<exists>c\<in>set (keys data). \<not> re_match_identifier c)"
      by auto
    with assms t have "dialect \<notin> set [''clickhouse'', ''postgres'', ''postgresql'', ''mysql'']"
      by blast
    with t Inr show ?thesis
      by (simp add: build_insert_query_def sanitize_identifier_def)
  qed
qed

lemma select_invalid:
  assumes "\<not> re_match_identifier table \<or> (\<exists>c\<in>set columns. \<not> re_match_identifier c) \<or>
     (\<exists>c\<in>set (keys whr). \<not> re_match_identifier c) \<or>
     (\<exists>ob. order_by = Some ob \<and> ob \<noteq> [] \<and> \<not> re_match_identifier ob)"
  shows "\<exists>msg. build_select_query table columns whr limit order_by dialect = Inl (ValueError msg)"
proof (cases "re_match_identifier table")
  case False
  then show ?thesis by (simp add: build_select_query_def sanitize_identifier_def)
next
  case t: True
  show ?thesis
  proof (cases "\<exists>c\<in>set columns. \<not> re_match_identifier c")
    case True
    then have "columns \<noteq> []" by auto
    with t sanitize_all_invalid [OF True] show ?thesis
      by (auto simp: build_select_query_def sanitize_identifier_def)
  next
    case c: False
    then obtain cs where cs: "sanitize_all columns = Inr cs"
      using sanitize_all_errors
      by (induction columns) (auto simp: sanitize_identifier_def split: sum.splits)
    show ?thesis
    proof (cases "\<exists>c\<in>set (keys whr). \<not> re_match_identifier c")
      case True
      then have "whr \<noteq> []" by (auto simp: keys_def)
      with t cs where_conditions_invalid [OF True, of dialect] show ?thesis
        by (auto simp: build_select_query_def sanitize_identifier_def Let_def)
    next
      case False
      with assms t c obtain ob where ob: "order_by = Some ob" "ob \<noteq> []" "\<not> re_match_identifier ob"
        by blast
      with t cs show ?thesis
        by (auto simp: build_select_query_def sanitize_identifier_def Let_def
            split: sum.splits dest: where_conditions_errors)
    qed
  qed
qed

lemma batch_invalid:
  assumes "records \<noteq> []"
    and "\<not> re_match_identifier table \<or> (\<exists>c\<in>set (keys (hd records)). \<not> re_match_identifier c)"
  shows "\<exists>msg. build_batch_insert table records dialect = Inl (ValueError msg)"
proof -
  from assms(1) obtain first rest where r: "records = first # rest" by (cases records) auto
  show ?thesis
  proof (cases "re_match_identifier table")
    case False
    with r show ?thesis by (simp add: build_batch_insert_def sanitize_identifier_def)
  next
    case True
    with assms(2) r have "\<exists>c\<in>set (keys first). \<not> re_match_identifier c" by simp
    from sanitize_all_invalid [OF this] True r show ?thesis
      by (auto simp: build_batch_insert_def sanitize_identifier_def Let_def)
  qed
qed

text \<open>
  Claim C9, as the code has it. An invalid identifier is an error at once: validation
  raises \<open>ValueError\<close> for every string that contains a semicolon or a space or that
  starts with a digit, it returns \<open>_col1\<close> and \<open>Table_Name\<close> unchanged, and each
  builder raises \<open>ValueError\<close> when the table name or one of the column names it uses
  does not match the pattern (\<open>build_batch_insert\<close> when it has a record).
  \<open>build_insert_query\<close> raises \<open>ValueError\<close> for a dialect it does not know. An empty
  list of records is not an error: \<open>build_batch_insert\<close> returns the empty query and
  an empty parameter list for it, whatever the table name and the dialect are.
\<close>

theorem query_builder_errors:
  "(CHR '';'' \<in> set s \<or> CHR '' '' \<in> set s \<or> (s \<noteq> [] \<and> is_digit (hd s)) \<longrightarrow>
      sanitize_identifier s = Inl (ValueError (invalid_identifier_msg s))) \<and>
   sanitize_identifier ''_col1'' = Inr ''_col1'' \<and>
   sanitize_identifier ''Table_Name'' = Inr ''Table_Name'' \<and>
   (\<not> re_match_identifier table \<or> (\<exists>c\<in>set (keys data). \<not> re_match_identifier c) \<or>
    dialect \<notin> set [''clickhouse'', ''postgres'', ''postgresql'', ''mysql''] \<longrightarrow>
      (\<exists>msg. build_insert_query table data dialect = Inl (ValueError msg))) \<and>
   (\<not> re_match_identifier table \<or> (\<exists>c\<in>set columns. \<not> re_match_identifier c) \<or>
    (\<exists>c\<in>set (keys whr). \<not> re_match_identifier c) \<or>
    (\<exists>ob. order_by = Some ob \<and> ob \<noteq> [] \<and> \<not> re_match_identifier ob) \<longrightarrow>
      (\<exists>msg. build_select_query table columns whr limit order_by dialect = Inl (ValueError msg))) \<and>
   (records \<noteq> [] \<and>
    (\<not> re_match_identifier table \<or> (\<exists>c\<in>set (keys (hd records)). \<not> re_match_identifier c)) \<longrightarrow>
      (\<exists>msg. build_batch_insert table records dialect = Inl (ValueError msg))) \<and>
   build_batch_insert table [] dialect = Inr ([], Rows [])"
proof (intro conjI impI)
  assume "CHR '';'' \<in> set s \<or> CHR '' '' \<in> set s \<or> (s \<noteq> [] \<and> is_digit (hd s))"
  then show "sanitize_identifier s = Inl (ValueError (invalid_identifier_msg s))"
    by (simp add: bad_identifier sanitize_identifier_invalid)
next
  show "sanitize_identifier ''_col1'' = Inr ''_col1''"
    by (simp add: sanitize_identifier_def re_match_identifier_def ident_start_def ident_char_def)
next
  show "sanitize_identifier ''Table_Name'' = Inr ''Table_Name''"
    by (simp add: sanitize_identifier_def re_match_identifier_def ident_start_def ident_char_def)
next
  assume "\<not> re_match_identifier table \<or> (\<exists>c\<in>set (keys data). \<not> re_match_identifier c) \<or>
    dialect \<notin> set [''clickhouse'', ''postgres'', ''postgresql'', ''mysql'']"
  then show "\<exists>msg. build_insert_query table data dialect = Inl (ValueError msg)"
    by (rule insert_invalid)
next
  assume "\<not> re_match_identifier table \<or> (\<exists>c\<in>set columns. \<not> re_match_identifier c) \<or>
    (\<exists>c\<in>set (keys whr). \<not> re_match_identifier c) \<or>
    (\<exists>ob. order_by = Some ob \<and> ob \<noteq> [] \<and> \<not> re_match_identifier ob)"
  then show "\<exists>msg. build_select_query table columns whr limit order_by dialect = Inl (ValueError msg)"
    by (rule select_invalid)
next
  assume "records \<noteq> [] \<and>
    (\<not> re_match_identifier table \<or> (\<exists>c\<in>set (keys (hd records)). \<not> re_match_identifier c))"
  then show "\<exists>msg. build_batch_insert table records dialect = Inl (ValueError msg)"
    using batch_invalid by blast
next
  show "build_batch_insert table [] dialect = Inr ([], Rows [])"
    by (simp add: build_batch_insert_def)
qed

theorem query_builder_errors_witness:
  "CHR '';'' \<in> set ''a;b'' \<and>
   sanitize_identifier ''a;b'' = Inl (ValueError (invalid_identifier_msg ''a;b'')) \<and>
   ''oracle'' \<notin> set [''clickhouse'', ''postgres'', ''postgresql'', ''mysql''] \<and>
   (\<exists>msg. build_insert_query ''users'' [(''id'', 1::int)] ''oracle'' = Inl (ValueError msg)) \<and>
   \<not> re_match_identifier ''1st'' \<and>
   (\<exists>msg. build_select_query ''users'' [''id'', ''1st''] [(''id'', 1::int)] None None ''oracle'' =
      Inl (ValueError msg)) \<and>
   \<not> re_match_identifier ''first name'' \<and>
   (\<exists>msg. build_batch_insert ''users'' [[(''first name'', 1::int)]] ''oracle'' = Inl (ValueError msg))"
proof -
  have h1: "CHR '';'' \<in> set ''a;b''" by simp
  have h2: "''oracle'' \<notin> set [''clickhouse'', ''postgres'', ''postgresql'', ''mysql'']" by simp
  have h3: "\<not> re_match_identifier ''1st''"
    by (simp add: re_match_identifier_def ident_start_def)
  have h4: "\<not> re_match_identifier ''first name''"
    by (simp add: re_match_identifier_def ident_start_def ident_char_def)
  have h5: "\<exists>c\<in>set [''id'', ''1st'']. \<not> re_match_identifier c" using h3 by simp
  have h6: "[[(''first name'', 1::int)]] \<noteq> [] \<and>
     (\<not> re_match_identifier ''users'' \<or>
      (\<exists>c\<in>set (keys (hd [[(''first name'', 1::int)]])). \<not> re_match_identifier c))"
    using h4 by (simp add: keys_def)
  note t = query_builder_errors [where s = "''a;b''" and table = "''users''"
      and data = "[(''id'', 1::int)]" and dialect = "''oracle''"
      and columns = "[''id'', ''1st'']" and whr = "[(''id'', 1::int)]"
      and limit = None and order_by = None
      and records = "[[(''first name'', 1::int)]]"]
  have w1: "sanitize_identifier ''a;b'' = Inl (ValueError (invalid_identifier_msg ''a;b''))"
    by (rule t [THEN conjunct1, THEN mp]) (rule disjI1, rule h1)
  have w2: "\<exists>msg. build_insert_query ''users'' [(''id'', 1::int)] ''oracle'' = Inl (ValueError msg)"
    by (rule t [THEN conjunct2, THEN conjunct2, THEN conjunct2, THEN conjunct1, THEN mp])
      (intro disjI2, rule h2)
  have w3: "\<exists>msg. build_select_query ''users'' [''id'', ''1st''] [(''id'', 1::int)] None None ''oracle'' =
      Inl (ValueError msg)"
    by (rule t [THEN conjunct2, THEN conjunct2, THEN conjunct2, THEN conjunct2, THEN conjunct1, THEN mp])
      (rule disjI2, rule disjI1, rule h5)
  have w4: "\<exists>msg. build_batch_insert ''users'' [[(''first name'', 1::int)]] ''oracle'' = Inl (ValueError msg)"
    by (rule t [THEN conjunct2, THEN conjunct2, THEN conjunct2, THEN conjunct2, THEN conjunct2,
          THEN conjunct1, THEN mp])
      (rule h6)
  show ?thesis by (intro conjI h1 w1 h2 w2 h3 w3 h4 w4)
qed

text \<open>
  The claim as the specification words it fails on an empty list of records: nothing is
  signalled, although the input is empty, the table name is invalid and the dialect is
  unknown.
\<close>

theorem query_builder_errors_counterexample:
  "build_batch_insert ''users; DROP'' ([] :: int pydict list) ''oracle'' = Inr ([], Rows []) \<and>
   \<not> (\<exists>e. build_batch_insert ''users; DROP'' ([] :: int pydict list) ''oracle'' = Inl e)"
  by (simp add: build_batch_insert_def)

section \<open>Port probing\<close>







lemma MetricsRegistry_init_fields:
  "service_name (MetricsRegistry_init t name prt mapping ext) = name"
  "port (MetricsRegistry_init t name prt mapping ext) = prt"
  "server (MetricsRegistry_init t name prt mapping ext) = None"
  "port_mapping (MetricsRegistry_init t name prt mapping ext) = (case mapping of None \<Rightarrow> [] | Some m \<Rightarrow> m)"
  "health_status (MetricsRegistry_init t name prt mapping ext) = 1"
  "errors_total (MetricsRegistry_init t name prt mapping ext) = (\<lambda>_. 0)"
  "attrs (MetricsRegistry_init t name prt mapping ext) = Map.empty"
  "collector (MetricsRegistry_init t name prt mapping ext) =
     [''service_info'', ''service_start_time_seconds'', ''service_errors_total'',
      ''service_health_status'']"
  by (simp_all add: MetricsRegistry_init_def Let_def)



section \<open>The registry cache\<close>

lemma start_metrics_server_frame:
  "service_registries (snd (start_metrics_server r p w)) = service_registries w"
  "next_ref (snd (start_metrics_server r p w)) = next_ref w"
  "metrics_servers (snd (start_metrics_server r p w)) = metrics_servers w"
  "correlation_context (snd (start_metrics_server r p w)) = correlation_context w"
  "service_name (heap (snd (start_metrics_server r p w)) r') = service_name (heap w r')"
  "health_status (heap (snd (start_metrics_server r p w)) r') = health_status (heap w r')"
  by (auto simp: start_metrics_server_def start_http_server_def heap_update_registry
      update_registry_fields split: sum.splits prod.splits if_splits)

lemma setup_metrics_cached:
  "service_registries w name = Some r \<Longrightarrow> setup_metrics name prt mapping start w = (Inr r, w)"
  by (simp add: setup_metrics_def)

lemma setup_metrics_first:
  assumes "service_registries w name = None"
    and "setup_metrics name prt mapping start w = (res, w')"
  shows "service_registries w' name = Some (next_ref w)"
    and "next_ref w' = Suc (next_ref w)"
    and "service_name (heap w' (next_ref w)) = name"
    and "\<forall>n. n \<noteq> name \<longrightarrow> service_registries w' n = service_registries w n"
    and "res = Inr (next_ref w) \<or> (start \<and> (\<exists>e. res = Inl e))"
proof -
  let ?w1 = "w\<lparr>heap := (heap w)(next_ref w := MetricsRegistry_init (now w) name prt mapping None),
       next_ref := Suc (next_ref w),
       service_registries := (service_registries w)(name \<mapsto> next_ref w)\<rparr>"
  let ?w2 = "snd (start_metrics_server (next_ref w) None ?w1)"
  have w': "w' = ?w1 \<or> w' = ?w2 \<or>
     w' = ?w2\<lparr>metrics_servers := AList.update name (server (heap ?w2 (next_ref w))) (metrics_servers ?w2)\<rparr>"
    using assms by (auto simp: setup_metrics_def Let_def split: if_splits prod.splits sum.splits)
  have f2: "service_registries ?w2 = (service_registries w)(name \<mapsto> next_ref w)"
    "next_ref ?w2 = Suc (next_ref w)" "service_name (heap ?w2 (next_ref w)) = name"
    by (simp_all add: start_metrics_server_frame MetricsRegistry_init_fields)
  from w' f2 show "service_registries w' name = Some (next_ref w)"
    by (elim disjE) simp_all
  from w' f2 show "next_ref w' = Suc (next_ref w)"
    by (elim disjE) simp_all
  from w' f2 show "service_name (heap w' (next_ref w)) = name"
    by (elim disjE) (simp_all add: MetricsRegistry_init_fields)
  from w' f2 show "\<forall>n. n \<noteq> name \<longrightarrow> service_registries w' n = service_registries w n"
    by (elim disjE) simp_all
  from assms show "res = Inr (next_ref w) \<or> (start \<and> (\<exists>e. res = Inl e))"
    by (auto simp: setup_metrics_def Let_def split: if_splits prod.splits sum.splits)
qed

lemma setup_metrics_registers:
  "\<exists>r. service_registries (snd (setup_metrics name prt mapping start w)) name = Some r"
proof (cases "service_registries w name")
  case None
  from setup_metrics_first(1) [OF None, of prt mapping start "fst (setup_metrics name prt mapping start w)"
      "snd (setup_metrics name prt mapping start w)"]
  show ?thesis by simp
next
  case (Some r)
  then show ?thesis by (simp add: setup_metrics_cached)
qed

text \<open>
  Claim C1. The first call of \<open>setup_metrics\<close> for a service name constructs a
  registry (a new object) and enters it in the cache under that name, leaving the other
  entries as they are; it returns the registry unless starting the server raised. A call
  for a name that is in the cache returns the cached registry and changes nothing: no
  registry is constructed and no server is started. So after any call for a name, a
  further call for it returns the registry that the cache holds and leaves the world as it
  is.
\<close>

theorem setup_metrics_once:
  "(service_registries w name = None \<and> setup_metrics name prt mapping start w = (res, w') \<longrightarrow>
      service_registries w' name = Some (next_ref w) \<and>
      next_ref w' = Suc (next_ref w) \<and>
      service_name (heap w' (next_ref w)) = name \<and>
      (\<forall>n. n \<noteq> name \<longrightarrow> service_registries w' n = service_registries w n) \<and>
      (res = Inr (next_ref w) \<or> (start \<and> (\<exists>e. res = Inl e)))) \<and>
   (service_registries w name = Some r \<longrightarrow>
      setup_metrics name prt2 mapping2 start2 w = (Inr r, w)) \<and>
   (setup_metrics name prt mapping start w = (res, w') \<longrightarrow>
      (\<exists>r'. service_registries w' name = Some r' \<and>
            setup_metrics name prt2 mapping2 start2 w' = (Inr r', w')))"
proof (intro conjI impI)
  assume a: "service_registries w name = None \<and> setup_metrics name prt mapping start w = (res, w')"
  then have n: "service_registries w name = None"
    and c: "setup_metrics name prt mapping start w = (res, w')" by simp_all
  show "service_registries w' name = Some (next_ref w)" by (rule setup_metrics_first(1) [OF n c])
  show "next_ref w' = Suc (next_ref w)" by (rule setup_metrics_first(2) [OF n c])
  show "service_name (heap w' (next_ref w)) = name" by (rule setup_metrics_first(3) [OF n c])
  show "\<forall>n. n \<noteq> name \<longrightarrow> service_registries w' n = service_registries w n"
    by (rule setup_metrics_first(4) [OF n c])
  show "res = Inr (next_ref w) \<or> (start \<and> (\<exists>e. res = Inl e))"
    by (rule setup_metrics_first(5) [OF n c])
next
  assume "service_registries w name = Some r"
  then show "setup_metrics name prt2 mapping2 start2 w = (Inr r, w)"
    by (rule setup_metrics_cached)
next
  assume c: "setup_metrics name prt mapping start w = (res, w')"
  from setup_metrics_registers [of name prt mapping start w] c
  obtain r' where "service_registries w' name = Some r'" by auto
  then show "\<exists>r'. service_registries w' name = Some r' \<and>
            setup_metrics name prt2 mapping2 start2 w' = (Inr r', w')"
    by (simp add: setup_metrics_cached)
qed

theorem setup_metrics_once_witness:
  "service_registries quiet_world ''svc'' = None \<and>
   service_registries (snd (setup_metrics ''svc'' None None True quiet_world)) ''svc'' = Some 0 \<and>
   fst (setup_metrics ''svc'' None None True quiet_world) = Inr 0 \<and>
   setup_metrics ''svc'' (Some 8000) None True (snd (setup_metrics ''svc'' None None True quiet_world)) =
     (Inr 0, snd (setup_metrics ''svc'' None None True quiet_world))"
proof -
  let ?res = "fst (setup_metrics ''svc'' None None True quiet_world)"
  let ?w' = "snd (setup_metrics ''svc'' None None True quiet_world)"
  have h1: "service_registries quiet_world ''svc'' = None"
    by (simp add: quiet_world_def initial_world_def)
  have h2: "setup_metrics ''svc'' None None True quiet_world = (?res, ?w')" by simp
  have n0: "next_ref quiet_world = 0" by (simp add: quiet_world_def initial_world_def)
  note t = setup_metrics_once [where w = quiet_world and name = "''svc''" and prt = None
      and mapping = None and start = True and res = ?res and w' = ?w' and r = 0
      and ?prt2.0 = "Some 8000" and ?mapping2.0 = None and ?start2.0 = True]
  have first: "service_registries ?w' ''svc'' = Some (next_ref quiet_world) \<and>
      next_ref ?w' = Suc (next_ref quiet_world) \<and>
      service_name (heap ?w' (next_ref quiet_world)) = ''svc'' \<and>
      (\<forall>n. n \<noteq> ''svc'' \<longrightarrow> service_registries ?w' n = service_registries quiet_world n) \<and>
      (?res = Inr (next_ref quiet_world) \<or> (True \<and> (\<exists>e. ?res = Inl e)))"
    by (rule t [THEN conjunct1, THEN mp]) (intro conjI h1 h2)
  then have w1: "service_registries ?w' ''svc'' = Some 0" by (simp add: n0)
  have w2: "?res = Inr 0" by code_simp
  have again: "\<exists>r'. service_registries ?w' ''svc'' = Some r' \<and>
      setup_metrics ''svc'' (Some 8000) None True ?w' = (Inr r', ?w')"
    by (rule t [THEN conjunct2, THEN conjunct2, THEN mp]) (rule h2)
  note t2 = setup_metrics_once [where w = ?w' and name = "''svc''" and r = 0
      and ?prt2.0 = "Some 8000" and ?mapping2.0 = None and ?start2.0 = True]
  have w3: "setup_metrics ''svc'' (Some 8000) None True ?w' = (Inr 0, ?w')"
    by (rule t2 [THEN conjunct2, THEN conjunct1, THEN mp]) (rule w1)
  show ?thesis by (intro conjI h1 w1 w2 w3)
qed

section \<open>Shutdown of the exposition servers\<close>

lemma shutdown_one_frame:
  "service_registries (shutdown_one e w) = service_registries w"
  "heap (shutdown_one e w) = heap w"
  "next_ref (shutdown_one e w) = next_ref w"
  "correlation_context (shutdown_one e w) = correlation_context w"
  by (simp_all add: shutdown_one_def server_shutdown_def split: option.splits)

lemma fold_shutdown_one_frame:
  "service_registries (fold shutdown_one es w) = service_registries w"
  "heap (fold shutdown_one es w) = heap w"
  "next_ref (fold shutdown_one es w) = next_ref w"
  "correlation_context (fold shutdown_one es w) = correlation_context w"
  by (induction es arbitrary: w) (simp_all add: shutdown_one_frame)




section \<open>The health gauge\<close>

lemma health_update_registry:
  assumes "\<And>reg. health_status (f reg) = health_status reg \<or> health_status (f reg) = 0 \<or>
             health_status (f reg) = 1"
    and "health_is_binary w"
  shows "health_is_binary (update_registry r f w)"
  using assms(2) assms(1)
  unfolding health_is_binary_def
  by (auto simp: heap_update_registry update_registry_fields) metis+

lemma health_same_heap:
  assumes "heap w' = heap w" and "next_ref w' = next_ref w" and "health_is_binary w"
  shows "health_is_binary w'"
  using assms by (simp add: health_is_binary_def)

lemma health_set_correlation_id: "health_is_binary w \<Longrightarrow> health_is_binary (set_correlation_id t v w)"
  by (simp add: health_is_binary_def set_correlation_id_def)

lemma health_set_health_status: "health_is_binary w \<Longrightarrow> health_is_binary (set_health_status r b w)"
  unfolding set_health_status_def by (rule health_update_registry) simp_all

lemma health_record_error: "health_is_binary w \<Longrightarrow> health_is_binary (record_error r e c w)"
  unfolding record_error_def by (rule health_update_registry) simp_all

lemma health_setattr: "health_is_binary w \<Longrightarrow> health_is_binary (setattr r n c w)"
  unfolding setattr_def by (rule health_update_registry) simp_all

lemma health_create_counter: "health_is_binary w \<Longrightarrow> health_is_binary (snd (create_counter r n ls w))"
  unfolding create_counter_def by (simp add: health_update_registry)

lemma health_start_metrics_server:
  "health_is_binary w \<Longrightarrow> health_is_binary (snd (start_metrics_server r p w))"
  by (simp add: health_is_binary_def start_metrics_server_frame)

lemma health_shutdown: "health_is_binary w \<Longrightarrow> health_is_binary (shutdown_metrics_servers w)"
  by (simp add: health_is_binary_def shutdown_metrics_servers_def fold_shutdown_one_frame)

lemma health_allocate:
  assumes "health_is_binary w"
  shows "health_is_binary
     (w\<lparr>heap := (heap w)(next_ref w := MetricsRegistry_init (now w) name prt mapping None),
        next_ref := Suc (next_ref w),
        service_registries := (service_registries w)(name \<mapsto> next_ref w)\<rparr>)"
  using assms by (auto simp: health_is_binary_def MetricsRegistry_init_fields less_Suc_eq)

lemma health_setup_metrics:
  assumes "health_is_binary w"
  shows "health_is_binary (snd (setup_metrics name prt mapping start w))"
proof (cases "service_registries w name")
  case (Some r)
  with assms show ?thesis by (simp add: setup_metrics_cached)
next
  case None
  let ?w1 = "w\<lparr>heap := (heap w)(next_ref w := MetricsRegistry_init (now w) name prt mapping None),
        next_ref := Suc (next_ref w),
        service_registries := (service_registries w)(name \<mapsto> next_ref w)\<rparr>"
  have h1: "health_is_binary ?w1" by (rule health_allocate [OF assms])
  then have h2: "health_is_binary (snd (start_metrics_server (next_ref w) None ?w1))"
    by (rule health_start_metrics_server)
  then have h3: "health_is_binary
     ((snd (start_metrics_server (next_ref w) None ?w1))\<lparr>metrics_servers := ms\<rparr>)" for ms
    by (simp add: health_is_binary_def)
  from None h1 h2 h3 show ?thesis
    by (auto simp: setup_metrics_def Let_def split: prod.splits sum.splits)
qed

lemma health_inc_main: "health_is_binary w \<Longrightarrow> health_is_binary (snd (inc_main r n w))"
  by (auto simp: inc_main_def health_setattr split: option.splits attr_value.splits sum.splits)

lemma health_record_success:
  assumes "health_is_binary w"
  shows "health_is_binary (snd (record_success n r w))"
proof -
  let ?first = "if \<not> hasattr (heap w r) n
            then (case create_counter r n [''component''] w of
                    (Inl e, w') \<Rightarrow> (Inl e, w')
                  | (Inr c, w') \<Rightarrow> (Inr (), setattr r n c w'))
            else (Inr (), w)"
  obtain o1 w1 where s1: "?first = (o1, w1)" by (cases ?first)
  have h1: "health_is_binary w1"
  proof (cases "hasattr (heap w r) n")
    case True
    with s1 assms show ?thesis by simp
  next
    case False
    obtain oc wc where c: "create_counter r n [''component''] w = (oc, wc)"
      by (cases "create_counter r n [''component''] w")
    with health_create_counter [OF assms, of r n "[''component'']"] have "health_is_binary wc"
      by simp
    with False s1 c show ?thesis by (cases oc) (auto simp: health_setattr)
  qed
  obtain o2 w2 where s2: "inc_main r n w1 = (o2, w2)" by (cases "inc_main r n w1")
  with health_inc_main [OF h1, of r n] have h2: "health_is_binary w2" by simp
  have "record_success n r w =
     (case o1 of Inl e \<Rightarrow> (Inl e, w1)
      | Inr _ \<Rightarrow> (case o2 of Inl e \<Rightarrow> (Inl e, w2) | Inr _ \<Rightarrow> (Inr (), set_health_status r True w2)))"
    unfolding record_success_def s1 using s2 by (simp split: sum.splits)
  with h1 h2 show ?thesis by (simp add: health_set_health_status split: sum.splits)
qed

lemma health_on_exception:
  "health_is_binary w \<Longrightarrow> health_is_binary (snd (on_exception f mr e w))"
  by (auto simp: on_exception_def health_record_error health_set_health_status split: option.splits)

lemma health_wrapper_try:
  assumes func: "\<And>w. health_is_binary w \<Longrightarrow> health_is_binary (snd (func args kwargs w))"
    and w: "health_is_binary w"
  shows "health_is_binary (snd (wrapper_try s f func args kwargs w))"
proof (cases "resolve_registry args kwargs w")
  case (Inl e)
  with w show ?thesis by (simp add: wrapper_try_def health_on_exception)
next
  case (Inr mr)
  obtain out w1 where f: "func args kwargs w = (out, w1)" by (cases "func args kwargs w")
  with func [OF w] have h1: "health_is_binary w1" by simp
  show ?thesis
  proof (cases out)
    case (Inl e)
    with Inr f h1 show ?thesis by (simp add: wrapper_try_def health_on_exception)
  next
    case res: (Inr result)
    show ?thesis
    proof (cases mr)
      case None
      with Inr f h1 res show ?thesis by (simp add: wrapper_try_def)
    next
      case (Some r)
      obtain o2 w2 where rs: "record_success s r w1 = (o2, w2)" by (cases "record_success s r w1")
      with health_record_success [OF h1, of s r] have h2: "health_is_binary w2" by simp
      with Inr f res Some rs show ?thesis
        by (cases o2) (simp_all add: wrapper_try_def health_on_exception)
    qed
  qed
qed

lemma health_manage_metrics:
  assumes func: "\<And>w. health_is_binary w \<Longrightarrow> health_is_binary (snd (func args kwargs w))"
    and w: "health_is_binary w"
  shows "health_is_binary (snd (manage_metrics s f func t u args kwargs w))"
proof -
  have "health_is_binary (wrapper_enter t u w)"
    unfolding wrapper_enter_def by (rule health_set_correlation_id [OF w])
  with func have "health_is_binary (snd (wrapper_try s f func args kwargs (wrapper_enter t u w)))"
    by (intro health_wrapper_try [where func = func and args = args and kwargs = kwargs]) simp_all
  then show ?thesis
    by (auto simp: manage_metrics_def health_set_correlation_id split: prod.splits)
qed

lemma health_fold:
  assumes "\<And>f w. f \<in> set fs \<Longrightarrow> health_is_binary w \<Longrightarrow> health_is_binary (f w)"
    and "health_is_binary w"
  shows "health_is_binary (fold (\<lambda>f. f) fs w)"
  using assms by (induction fs arbitrary: w) simp_all

lemma health_exec: "health_is_binary w \<Longrightarrow> health_is_binary (exec c w)"
proof (induction c arbitrary: w)
  case (Wrapped s f t u args kwargs body outcome)
  have "health_is_binary (snd (run_body (map exec body) outcome args kwargs w'))"
    if "health_is_binary w'" for w'
    using that Wrapped.IH by (auto simp: run_body_def intro!: health_fold)
  then show ?case
    using Wrapped.prems by (simp add: health_manage_metrics)
qed (simp_all add: health_setup_metrics health_start_metrics_server health_create_counter
    health_record_error health_set_health_status health_shutdown health_set_correlation_id)

lemma health_run: "health_is_binary w \<Longrightarrow> health_is_binary (run calls w)"
  unfolding run_def by (induction calls arbitrary: w) (simp_all add: health_exec)


lemma health_after_setup:
  assumes "service_registries w name = None"
  shows "health_status (heap (snd (setup_metrics name prt mapping start w)) (next_ref w)) = 1"
proof -
  let ?w1 = "w\<lparr>heap := (heap w)(next_ref w := MetricsRegistry_init (now w) name prt mapping None),
        next_ref := Suc (next_ref w),
        service_registries := (service_registries w)(name \<mapsto> next_ref w)\<rparr>"
  have "health_status (heap (snd (start_metrics_server (next_ref w) None ?w1)) (next_ref w)) = 1"
    by (simp add: start_metrics_server_frame MetricsRegistry_init_fields)
  then have "start_metrics_server (next_ref w) None ?w1 = (x, w2) \<Longrightarrow>
      health_status (heap w2 (next_ref w)) = 1" for x w2
    by simp
  with assms show ?thesis
    by (auto simp: setup_metrics_def Let_def MetricsRegistry_init_fields
        split: prod.splits sum.splits)
qed

text \<open>
  Claim C10. A registry is constructed with the health gauge at 1, and the gauge of the
  registry that \<open>setup_metrics\<close> has just constructed reads 1, also when the server was
  started. \<open>set_health_status\<close> writes 1 for \<open>True\<close> and 0 for \<open>False\<close>. The gauge
  of every constructed registry is 0 or 1 when the modules have been imported, and every
  program over the library keeps it so: setting up services, starting and shutting down
  servers, creating counters, recording errors, setting the health, and wrapped calls
  whose functions are such programs.
\<close>

theorem health_gauge_binary:
  "health_status (MetricsRegistry_init t name prt mapping ext) = 1 \<and>
   (service_registries w name = None \<longrightarrow>
      health_status (heap (snd (setup_metrics name prt mapping start w)) (next_ref w)) = 1) \<and>
   health_status (heap (set_health_status r b w) r) = (if b then 1 else 0) \<and>
   health_is_binary (initial_world env ports has_shutdown t0) \<and>
   (health_is_binary w \<longrightarrow> health_is_binary (run calls w))"
proof (intro conjI impI)
  show "health_status (MetricsRegistry_init t name prt mapping ext) = 1"
    by (simp add: MetricsRegistry_init_fields)
  show "health_status (heap (set_health_status r b w) r) = (if b then 1 else 0)"
    by (simp add: set_health_status_def heap_update_registry)
  show "health_is_binary (initial_world env ports has_shutdown t0)"
    by (simp add: health_is_binary_def initial_world_def)
next
  assume "service_registries w name = None"
  then show "health_status (heap (snd (setup_metrics name prt mapping start w)) (next_ref w)) = 1"
    by (rule health_after_setup)
next
  assume "health_is_binary w"
  then show "health_is_binary (run calls w)" by (rule health_run)
qed

theorem health_gauge_binary_witness:
  "service_registries quiet_world ''svc'' = None \<and>
   health_status (heap (snd (setup_metrics ''svc'' None None True quiet_world)) 0) = 1 \<and>
   health_is_binary quiet_world \<and>
   health_is_binary
     (run [Setup ''svc'' None None True, SetHealth 0 False,
           Wrapped ''execution_success'' ''execution_failure'' 0 ''0123456789abcdef''
             [PyStr ''svc''] [] [RecordError 0 ''io'' ''db''] (Inr ())] quiet_world) \<and>
   health_status (heap (run [Setup ''svc'' None None True, SetHealth 0 False] quiet_world) 0) = 0"
proof -
  let ?calls = "[Setup ''svc'' None None True, SetHealth 0 False,
           Wrapped ''execution_success'' ''execution_failure'' 0 ''0123456789abcdef''
             [PyStr ''svc''] [] [RecordError 0 ''io'' ''db''] (Inr ())]"
  have h1: "service_registries quiet_world ''svc'' = None"
    by (simp add: quiet_world_def initial_world_def)
  have n0: "next_ref quiet_world = 0" by (simp add: quiet_world_def initial_world_def)
  have h2: "health_is_binary quiet_world"
    by (simp add: health_is_binary_def n0)
  note t = health_gauge_binary [where w = quiet_world and name = "''svc''" and prt = None
      and mapping = None and start = True and calls = ?calls]
  have w1: "health_status (heap (snd (setup_metrics ''svc'' None None True quiet_world)) 0) = 1"
    using t [THEN conjunct2, THEN conjunct1, THEN mp, OF h1] by (simp add: n0)
  have w2: "health_is_binary (run ?calls quiet_world)"
    by (rule t [THEN conjunct2, THEN conjunct2, THEN conjunct2, THEN conjunct2, THEN mp]) (rule h2)
  have w3: "health_status (heap (run [Setup ''svc'' None None True, SetHealth 0 False] quiet_world) 0) = 0"
    by code_simp
  show ?thesis by (intro conjI h1 w1 h2 w2 w3)
qed

section \<open>The instrumentation wrapper\<close>




















end
